theory Spec2Isabelle
  imports Main
begin

section \<open>Client bootstrap of orlop: the gRPC dial options built from configuration\<close>

text \<open>
  The development embeds \<^verbatim>\<open>Connect\<close> and \<^verbatim>\<open>ConnectContext\<close> of package
  \<^verbatim>\<open>orlop\<close> and the constants of package \<^verbatim>\<open>version\<close>.

  What the Go code does besides returning a value is written out:
  \<^item> the two results \<^verbatim>\<open>(*grpc.ClientConn, error)\<close> are a sum, \<open>Inl\<close> the error
    (the connection is then \<^verbatim>\<open>nil\<close>), \<open>Inr\<close> the connection;
  \<^item> every call that leaves the function (tracer, logger, the TLS resolver, the dial)
    is recorded, in program order, in a list of events returned beside the result;
  \<^item> the collaborators whose code is not part of the two source files
    (\<^verbatim>\<open>NewClientTLSConfig\<close>, \<^verbatim>\<open>LoadKey\<close>, \<^verbatim>\<open>grpc.DialContext\<close>) are the fields of
    a record of functions, so that every theorem holds for whatever they answer.
\<close>

subsection \<open>Package version\<close>

definition Name :: string where
  "Name = ''orlop''"

definition Version :: string where
  "Version = ''0.0.0''"

subsection \<open>Data\<close>

text \<open>
  \<^verbatim>\<open>context.Context\<close>: the background context, a context carrying a span started by
  the tracer, and a context bounded by a timeout (a \<^verbatim>\<open>time.Duration\<close>).
\<close>

datatype "context" =
    Background
  | WithSpan "context" string
  | WithTimeout "context" int

text \<open>Errors of package \<^verbatim>\<open>errors\<close>: a fresh error and an error wrapped with a message.\<close>

datatype error =
    New string
  | Wrap error string

text \<open>
  The configuration interfaces are read through their getters only, so each is a record
  whose fields carry the getters' names. The integers are Go's \<^verbatim>\<open>int\<close>, \<^verbatim>\<open>int32\<close>
  and \<^verbatim>\<open>time.Duration\<close>; the code compares them with zero and copies them, and never
  computes with them, so they are \<open>int\<close>. The TLS settings other than the enabled flag
  and the vault configuration are handed on unread: one opaque field stands for each.
\<close>

record shared_config =
  GetID :: string
  GetFile :: string
  GetSecret :: string

record token_config =
  GetShared :: shared_config

record tls_config =
  GetEnabled :: bool
  GetSettings :: string

datatype vault_config = VaultConfig string

record client_config =
  GetURL :: string
  GetTLS :: tls_config
  GetToken :: token_config
  GetWriteBufferSize :: int
  GetReadBufferSize :: int
  GetInitialWindowSize :: int
  GetInitialConnWindowSize :: int
  GetMaxCallRecvMsgSize :: int
  GetMaxCallSendMsgSize :: int
  GetMinConnectTimeout :: int
  GetBlock :: bool
  GetConnTimeout :: int
  GetUserAgent :: string

text \<open>
  The values the options are made of. The function literal assigned to
  \<^verbatim>\<open>tokenProvider\<close> refers to the variables \<^verbatim>\<open>shared\<close> and \<^verbatim>\<open>vault\<close> of the
  enclosing call: the closure is the pair of the two captured values, and
  \<open>tokenProvider\<close> below is its body.
\<close>

datatype tls_material = TLSConfig string

datatype transport_credentials = NewTLS tls_material

datatype token_provider = TokenProvider shared_config vault_config

datatype per_rpc_credentials =
    ContextCredentials
  | SharedContextCredentials token_provider

datatype interceptor = UnaryClientInterceptor | StreamClientInterceptor

datatype call_option =
    MaxCallRecvMsgSize int
  | MaxCallSendMsgSize int

text \<open>\<^verbatim>\<open>grpc.ConnectParams\<close> with only \<^verbatim>\<open>MinConnectTimeout\<close> set.\<close>

datatype connect_params = ConnectParams int

datatype dial_option =
    WithUnaryInterceptor interceptor
  | WithStreamInterceptor interceptor
  | WithTransportCredentials transport_credentials
  | WithInsecure
  | WithPerRPCCredentials per_rpc_credentials
  | WithWriteBufferSize int
  | WithReadBufferSize int
  | WithInitialWindowSize int
  | WithInitialConnWindowSize int
  | WithDefaultCallOptions "call_option list"
  | WithConnectParams connect_params
  | WithBlock
  | WithUserAgent string

datatype client_conn = ClientConn string

text \<open>The fields of the trace-level log record (\<^verbatim>\<open>logrus.Fields\<close>).\<close>

datatype field_value = S string | I int | B bool

text \<open>The calls that leave the function, in the order the program makes them.\<close>

datatype event =
    SpanStart string
  | SpanRecordError string error
  | SpanEnd string
  | ResolveTLS "context" tls_config vault_config
  | LoadKeyCall "context" shared_config vault_config string
  | LogError error string
  | LogTrace "context" "(string \<times> field_value) list" string
  | Dial "context" string "dial_option list"

subsection \<open>Collaborators\<close>

text \<open>
  The functions \<^verbatim>\<open>ConnectContext\<close> and the token provider call and whose code is
  not in the two source files, with the arguments the calls give them: the TLS resolver
  \<^verbatim>\<open>NewClientTLSConfig(ctx, cfg.GetTLS(), vault)\<close>, the secret lookup
  \<^verbatim>\<open>LoadKey(ctx, shared, vault, "secret")\<close> and the dial
  \<^verbatim>\<open>grpc.DialContext(ctx, cfg.GetURL(), opts...)\<close>. Each returns a value or an error.
  Nothing is assumed about what they answer.
\<close>

record env =
  NewClientTLSConfig :: "context \<Rightarrow> tls_config \<Rightarrow> vault_config \<Rightarrow> error + tls_material"
  LoadKey :: "context \<Rightarrow> shared_config \<Rightarrow> vault_config \<Rightarrow> string \<Rightarrow> error + string"
  DialContext :: "context \<Rightarrow> string \<Rightarrow> dial_option list \<Rightarrow> error + client_conn"

subsection \<open>The token provider of the shared credentials\<close>

text \<open>
  The body of the function literal at lines 71 to 83: a span is started, the key is
  loaded for the purpose \<^verbatim>\<open>"secret"\<close>; on an error the error is recorded on the span
  and logged and the empty string is returned, otherwise the bytes as a string. The
  deferred \<^verbatim>\<open>span.End()\<close> is the last event on both paths.
\<close>

fun tokenProvider :: "env \<Rightarrow> token_provider \<Rightarrow> context \<Rightarrow> string \<times> event list" where
  "tokenProvider env (TokenProvider shared vault) ctx0 =
     (let ctx = WithSpan ctx0 ''TokenProvider'';
          tr = [SpanStart ''TokenProvider'', LoadKeyCall ctx shared vault ''secret'']
      in case LoadKey env ctx shared vault ''secret'' of
           Inl err \<Rightarrow>
             ('''', tr @ [SpanRecordError ''TokenProvider'' err,
                         LogError err ''client: could not load secret key'',
                         SpanEnd ''TokenProvider''])
         | Inr s \<Rightarrow> (s, tr @ [SpanEnd ''TokenProvider'']))"

subsection \<open>ConnectContext\<close>

text \<open>
  Lines 68 to 131: the per-call credentials, the tuning options, the context of the
  dial and the user agent. Every \<^verbatim>\<open>opts = append(opts, o)\<close> is \<open>opts @ [o]\<close>, and a
  guarded append leaves \<open>opts\<close> as it is when the guard is false. The result is the
  option list, the context and the user agent as they stand at line 132.
\<close>

definition ConnectContext_options ::
  "context \<Rightarrow> client_config \<Rightarrow> vault_config \<Rightarrow> dial_option list
     \<Rightarrow> dial_option list \<times> context \<times> string" where
  "ConnectContext_options ctx cfg vault opts0 =
     (let shared = GetShared (GetToken cfg);
          opts = (if 0 < length (GetID shared) \<or> 0 < length (GetFile shared)
                     \<or> 0 < length (GetSecret shared)
                  then opts0 @ [WithPerRPCCredentials
                                  (SharedContextCredentials (TokenProvider shared vault))]
                  else opts0 @ [WithPerRPCCredentials ContextCredentials]);
          opts = (if 0 < GetWriteBufferSize cfg
                  then opts @ [WithWriteBufferSize (GetWriteBufferSize cfg)] else opts);
          opts = (if 0 < GetReadBufferSize cfg
                  then opts @ [WithReadBufferSize (GetReadBufferSize cfg)] else opts);
          opts = (if 0 < GetInitialWindowSize cfg
                  then opts @ [WithInitialWindowSize (GetInitialWindowSize cfg)] else opts);
          opts = (if 0 < GetInitialConnWindowSize cfg
                  then opts @ [WithInitialConnWindowSize (GetInitialConnWindowSize cfg)]
                  else opts);
          opts = (if 0 < GetMaxCallRecvMsgSize cfg
                  then opts @ [WithDefaultCallOptions
                                 [MaxCallRecvMsgSize (GetMaxCallRecvMsgSize cfg)]]
                  else opts);
          opts = (if 0 < GetMaxCallSendMsgSize cfg
                  then opts @ [WithDefaultCallOptions
                                 [MaxCallSendMsgSize (GetMaxCallSendMsgSize cfg)]]
                  else opts);
          opts = (if 0 < GetMinConnectTimeout cfg
                  then opts @ [WithConnectParams (ConnectParams (GetMinConnectTimeout cfg))]
                  else opts);
          opts = (if GetBlock cfg then opts @ [WithBlock] else opts);
          ctx = (if 0 < GetConnTimeout cfg then WithTimeout ctx (GetConnTimeout cfg)
                 else ctx);
          ua = Name @ ''/'' @ Version;
          ua = (if 0 < length (GetUserAgent cfg) then GetUserAgent cfg else ua);
          opts = opts @ [WithUserAgent ua]
      in (opts, ctx, ua))"

text \<open>
  Lines 133 to 153: the log record, the dial, and the two ways out. \<open>tr\<close> is the
  trace so far.
\<close>

definition ConnectContext_dial ::
  "env \<Rightarrow> context \<Rightarrow> client_config \<Rightarrow> dial_option list \<Rightarrow> string \<Rightarrow> event list
     \<Rightarrow> (error + client_conn) \<times> event list" where
  "ConnectContext_dial env ctx cfg opts ua tr =
     (let tr = tr @ [LogTrace ctx
                       [(''url'', S (GetURL cfg)),
                        (''connTimeout'', I (GetConnTimeout cfg)),
                        (''block'', B (GetBlock cfg)),
                        (''initialConnWindowSize'', I (GetInitialConnWindowSize cfg)),
                        (''initialWindowSize'', I (GetInitialWindowSize cfg)),
                        (''maxCallRecvMsgSize'', I (GetMaxCallRecvMsgSize cfg)),
                        (''maxCallSendMsgSize'', I (GetMaxCallSendMsgSize cfg)),
                        (''minConnectTimeout'', I (GetMinConnectTimeout cfg)),
                        (''readBufferSize'', I (GetReadBufferSize cfg)),
                        (''userAgent'', S ua),
                        (''writeBufferSize'', I (GetWriteBufferSize cfg))]
                       ''dialling'',
                     Dial ctx (GetURL cfg) opts]
      in case DialContext env ctx (GetURL cfg) opts of
           Inl err \<Rightarrow> (Inl err, tr @ [SpanRecordError ''Connect'' err, SpanEnd ''Connect''])
         | Inr conn \<Rightarrow> (Inr conn, tr @ [SpanEnd ''Connect'']))"

text \<open>
  Lines 42 to 66, continued by the two parts above: the span, the check of the URL,
  the two interceptors and the transport security. The deferred \<^verbatim>\<open>span.End()\<close>
  closes the trace on every path.
\<close>

definition ConnectContext ::
  "env \<Rightarrow> context \<Rightarrow> client_config \<Rightarrow> vault_config
     \<Rightarrow> (error + client_conn) \<times> event list" where
  "ConnectContext env ctx0 cfg vault =
     (let ctx = WithSpan ctx0 ''Connect'';
          tr = [SpanStart ''Connect''];
          opts = []
      in if length (GetURL cfg) = 0 then
           (let err = New ''client: url required''
            in (Inl err, tr @ [SpanRecordError ''Connect'' err, SpanEnd ''Connect'']))
         else
           (let opts = opts @ [WithUnaryInterceptor UnaryClientInterceptor];
                opts = opts @ [WithStreamInterceptor StreamClientInterceptor]
            in if GetEnabled (GetTLS cfg) then
                 (let tr = tr @ [ResolveTLS ctx (GetTLS cfg) vault]
                  in case NewClientTLSConfig env ctx (GetTLS cfg) vault of
                       Inl err \<Rightarrow>
                         (Inl (Wrap err ''client: failed to get client TLS config''),
                          tr @ [SpanRecordError ''Connect'' err, SpanEnd ''Connect''])
                     | Inr t \<Rightarrow>
                         (let opts = opts @ [WithTransportCredentials (NewTLS t)];
                              (opts, ctx, ua) = ConnectContext_options ctx cfg vault opts
                          in ConnectContext_dial env ctx cfg opts ua tr))
               else
                 (let opts = opts @ [WithInsecure];
                      (opts, ctx, ua) = ConnectContext_options ctx cfg vault opts
                  in ConnectContext_dial env ctx cfg opts ua tr)))"

text \<open>Lines 36 to 38.\<close>

definition Connect ::
  "env \<Rightarrow> client_config \<Rightarrow> vault_config \<Rightarrow> (error + client_conn) \<times> event list" where
  "Connect env cfg vault = ConnectContext env Background cfg vault"

subsection \<open>Reading a trace\<close>

text \<open>The dials of a trace, each with its context, target and options, in order.\<close>

definition dial_calls :: "event list \<Rightarrow> (context \<times> string \<times> dial_option list) list" where
  "dial_calls tr =
     concat (map (\<lambda>e. case e of Dial c u os \<Rightarrow> [(c, u, os)] | _ \<Rightarrow> []) tr)"

text \<open>The calls of the TLS resolver in a trace, each with its arguments.\<close>

definition resolver_calls :: "event list \<Rightarrow> (context \<times> tls_config \<times> vault_config) list" where
  "resolver_calls tr =
     concat (map (\<lambda>e. case e of ResolveTLS c t v \<Rightarrow> [(c, t, v)] | _ \<Rightarrow> []) tr)"

text \<open>The secret lookups of a trace.\<close>

definition load_key_calls :: "event list \<Rightarrow> (context \<times> shared_config \<times> vault_config \<times> string) list" where
  "load_key_calls tr =
     concat (map (\<lambda>e. case e of LoadKeyCall c s v p \<Rightarrow> [(c, s, v, p)] | _ \<Rightarrow> []) tr)"

text \<open>The per-call credentials among a list of options.\<close>

definition per_rpc_credentials_of :: "dial_option list \<Rightarrow> per_rpc_credentials list" where
  "per_rpc_credentials_of opts =
     concat (map (\<lambda>x. case x of WithPerRPCCredentials c \<Rightarrow> [c] | _ \<Rightarrow> []) opts)"

text \<open>The user agents among a list of options.\<close>

definition user_agents_of :: "dial_option list \<Rightarrow> string list" where
  "user_agents_of opts =
     concat (map (\<lambda>x. case x of WithUserAgent s \<Rightarrow> [s] | _ \<Rightarrow> []) opts)"

text \<open>The option lists of the dials of a trace, in order.\<close>

definition dialled_options :: "event list \<Rightarrow> dial_option list list" where
  "dialled_options tr = map (\<lambda>(c, u, opts). opts) (dial_calls tr)"

text \<open>
  The runs that get as far as the dial: the URL is not empty and, when TLS is enabled,
  the resolver returns material for the context, settings and vault it is called with.
\<close>

definition reaches_dial :: "env \<Rightarrow> context \<Rightarrow> client_config \<Rightarrow> vault_config \<Rightarrow> bool" where
  "reaches_dial env ctx cfg vault \<longleftrightarrow>
     GetURL cfg \<noteq> [] \<and>
     (GetEnabled (GetTLS cfg) \<longrightarrow>
        \<not> isl (NewClientTLSConfig env (WithSpan ctx ''Connect'') (GetTLS cfg) vault))"

subsection \<open>Concrete collaborators and configurations\<close>

text \<open>
  The inputs at which the theorems below are instantiated. The collaborators answer
  the same to every call: a resolver that returns TLS material, one that returns other
  material, one that fails; a secret store that fails; a dial that succeeds.
\<close>

definition fixture_vault :: vault_config where
  "fixture_vault = VaultConfig ''vault.internal:8200''"

definition fixture_env :: env where
  "fixture_env =
     \<lparr>NewClientTLSConfig = (\<lambda>ctx tls vault. Inr (TLSConfig ''chain-2020'')),
      LoadKey = (\<lambda>ctx shared vault purpose. Inl (New ''vault: sealed'')),
      DialContext = (\<lambda>ctx url opts. Inr (ClientConn url))\<rparr>"

definition fixture_env_rotated :: env where
  "fixture_env_rotated =
     \<lparr>NewClientTLSConfig = (\<lambda>ctx tls vault. Inr (TLSConfig ''chain-2021'')),
      LoadKey = (\<lambda>ctx shared vault purpose. Inl (New ''vault: sealed'')),
      DialContext = (\<lambda>ctx url opts. Inr (ClientConn url))\<rparr>"

definition fixture_env_no_material :: env where
  "fixture_env_no_material =
     \<lparr>NewClientTLSConfig = (\<lambda>ctx tls vault. Inl (New ''tls: no certificate'')),
      LoadKey = (\<lambda>ctx shared vault purpose. Inl (New ''vault: sealed'')),
      DialContext = (\<lambda>ctx url opts. Inr (ClientConn url))\<rparr>"

text \<open>A target, no TLS, no shared secret, every tuning field zero.\<close>

definition fixture_cfg :: client_config where
  "fixture_cfg =
     \<lparr>GetURL = ''svc:443'',
      GetTLS = \<lparr>GetEnabled = False, GetSettings = []\<rparr>,
      GetToken = \<lparr>GetShared = \<lparr>GetID = [], GetFile = [], GetSecret = []\<rparr>\<rparr>,
      GetWriteBufferSize = 0,
      GetReadBufferSize = 0,
      GetInitialWindowSize = 0,
      GetInitialConnWindowSize = 0,
      GetMaxCallRecvMsgSize = 0,
      GetMaxCallSendMsgSize = 0,
      GetMinConnectTimeout = 0,
      GetBlock = False,
      GetConnTimeout = 0,
      GetUserAgent = []\<rparr>"

text \<open>TLS, a shared secret, and tuning fields that are positive, zero and negative.\<close>

definition fixture_cfg_tuned :: client_config where
  "fixture_cfg_tuned =
     \<lparr>GetURL = ''svc:443'',
      GetTLS = \<lparr>GetEnabled = True, GetSettings = ''client.pem''\<rparr>,
      GetToken = \<lparr>GetShared = \<lparr>GetID = ''api-key'', GetFile = [], GetSecret = []\<rparr>\<rparr>,
      GetWriteBufferSize = 4096,
      GetReadBufferSize = 0,
      GetInitialWindowSize = 65535,
      GetInitialConnWindowSize = - 1,
      GetMaxCallRecvMsgSize = 1048576,
      GetMaxCallSendMsgSize = 0,
      GetMinConnectTimeout = 20,
      GetBlock = True,
      GetConnTimeout = 5,
      GetUserAgent = ''probe/1.2''\<rparr>"

text \<open>The same without a target.\<close>

definition fixture_cfg_no_url :: client_config where
  "fixture_cfg_no_url = fixture_cfg_tuned\<lparr>GetURL := []\<rparr>"

subsection \<open>Traces and appends\<close>

lemma dial_calls_append: "dial_calls (a @ b) = dial_calls a @ dial_calls b"
  by (simp add: dial_calls_def)

lemma resolver_calls_append: "resolver_calls (a @ b) = resolver_calls a @ resolver_calls b"
  by (simp add: resolver_calls_def)

lemma load_key_calls_append: "load_key_calls (a @ b) = load_key_calls a @ load_key_calls b"
  by (simp add: load_key_calls_def)

lemma dial_calls_Nil: "dial_calls [] = []"
  by (simp add: dial_calls_def)

lemma dial_calls_Cons:
  "dial_calls (e # es) = (case e of Dial c u os \<Rightarrow> [(c, u, os)] | _ \<Rightarrow> []) @ dial_calls es"
  by (simp add: dial_calls_def)

lemma resolver_calls_Nil: "resolver_calls [] = []"
  by (simp add: resolver_calls_def)

lemma resolver_calls_Cons:
  "resolver_calls (e # es) =
     (case e of ResolveTLS c t v \<Rightarrow> [(c, t, v)] | _ \<Rightarrow> []) @ resolver_calls es"
  by (simp add: resolver_calls_def)

lemma load_key_calls_Nil: "load_key_calls [] = []"
  by (simp add: load_key_calls_def)

lemma load_key_calls_Cons:
  "load_key_calls (e # es) =
     (case e of LoadKeyCall c s v p \<Rightarrow> [(c, s, v, p)] | _ \<Rightarrow> []) @ load_key_calls es"
  by (simp add: load_key_calls_def)

lemma guarded_append: "(if b then xs @ [x] else xs) = xs @ (if b then [x] else [])"
  by simp

lemma in_set_guarded: "y \<in> set (if b then [x] else []) \<longleftrightarrow> b \<and> y = x"
  by (cases b) auto

lemma ConnectContext_options_closed:
  "ConnectContext_options ctx cfg vault opts0 =
     (opts0
        @ [WithPerRPCCredentials
             (if GetID (GetShared (GetToken cfg)) = [] \<and> GetFile (GetShared (GetToken cfg)) = []
                 \<and> GetSecret (GetShared (GetToken cfg)) = []
              then ContextCredentials
              else SharedContextCredentials (TokenProvider (GetShared (GetToken cfg)) vault))]
        @ (if 0 < GetWriteBufferSize cfg then [WithWriteBufferSize (GetWriteBufferSize cfg)] else [])
        @ (if 0 < GetReadBufferSize cfg then [WithReadBufferSize (GetReadBufferSize cfg)] else [])
        @ (if 0 < GetInitialWindowSize cfg then [WithInitialWindowSize (GetInitialWindowSize cfg)] else [])
        @ (if 0 < GetInitialConnWindowSize cfg
           then [WithInitialConnWindowSize (GetInitialConnWindowSize cfg)] else [])
        @ (if 0 < GetMaxCallRecvMsgSize cfg
           then [WithDefaultCallOptions [MaxCallRecvMsgSize (GetMaxCallRecvMsgSize cfg)]] else [])
        @ (if 0 < GetMaxCallSendMsgSize cfg
           then [WithDefaultCallOptions [MaxCallSendMsgSize (GetMaxCallSendMsgSize cfg)]] else [])
        @ (if 0 < GetMinConnectTimeout cfg
           then [WithConnectParams (ConnectParams (GetMinConnectTimeout cfg))] else [])
        @ (if GetBlock cfg then [WithBlock] else [])
        @ [WithUserAgent (if GetUserAgent cfg = [] then Name @ ''/'' @ Version else GetUserAgent cfg)],
      if 0 < GetConnTimeout cfg then WithTimeout ctx (GetConnTimeout cfg) else ctx,
      if GetUserAgent cfg = [] then Name @ ''/'' @ Version else GetUserAgent cfg)"
  unfolding ConnectContext_options_def Let_def guarded_append
  by (simp split del: if_split cong: if_cong) auto

lemma ConnectContext_options_append:
  "fst (ConnectContext_options ctx cfg vault opts0)
     = opts0 @ fst (ConnectContext_options ctx cfg vault [])"
  by (simp add: ConnectContext_options_closed split del: if_split)

lemma ConnectContext_options_context:
  "fst (snd (ConnectContext_options ctx cfg vault opts0))
     = (if 0 < GetConnTimeout cfg then WithTimeout ctx (GetConnTimeout cfg) else ctx)"
  by (simp add: ConnectContext_options_closed split del: if_split)

lemma ConnectContext_dial_result:
  "fst (ConnectContext_dial env ctx cfg opts ua tr) = DialContext env ctx (GetURL cfg) opts"
  by (simp add: ConnectContext_dial_def Let_def split: sum.splits)

lemma ConnectContext_dial_calls:
  "dial_calls (snd (ConnectContext_dial env ctx cfg opts ua tr))
     = dial_calls tr @ [(ctx, GetURL cfg, opts)]"
  by (simp add: ConnectContext_dial_def Let_def dial_calls_append dial_calls_Nil dial_calls_Cons
      split: sum.splits)

lemma ConnectContext_dial_resolver_calls:
  "resolver_calls (snd (ConnectContext_dial env ctx cfg opts ua tr)) = resolver_calls tr"
  by (simp add: ConnectContext_dial_def Let_def resolver_calls_append resolver_calls_Nil
      resolver_calls_Cons split: sum.splits)

lemma ConnectContext_dial_load_key_calls:
  "load_key_calls (snd (ConnectContext_dial env ctx cfg opts ua tr)) = load_key_calls tr"
  by (simp add: ConnectContext_dial_def Let_def load_key_calls_append load_key_calls_Nil
      load_key_calls_Cons split: sum.splits)

lemma ConnectContext_no_url:
  "GetURL cfg = [] \<Longrightarrow>
   ConnectContext env ctx cfg vault =
     (Inl (New ''client: url required''),
      [SpanStart ''Connect'', SpanRecordError ''Connect'' (New ''client: url required''),
       SpanEnd ''Connect''])"
  by (simp add: ConnectContext_def Let_def)

lemma ConnectContext_insecure:
  "GetURL cfg \<noteq> [] \<Longrightarrow> \<not> GetEnabled (GetTLS cfg) \<Longrightarrow>
   ConnectContext env ctx cfg vault =
     (case ConnectContext_options (WithSpan ctx ''Connect'') cfg vault
             [WithUnaryInterceptor UnaryClientInterceptor,
              WithStreamInterceptor StreamClientInterceptor, WithInsecure] of
        (opts, c, ua) \<Rightarrow> ConnectContext_dial env c cfg opts ua [SpanStart ''Connect''])"
  by (simp add: ConnectContext_def Let_def)

lemma ConnectContext_tls_error:
  "GetURL cfg \<noteq> [] \<Longrightarrow> GetEnabled (GetTLS cfg) \<Longrightarrow>
   NewClientTLSConfig env (WithSpan ctx ''Connect'') (GetTLS cfg) vault = Inl err \<Longrightarrow>
   ConnectContext env ctx cfg vault =
     (Inl (Wrap err ''client: failed to get client TLS config''),
      [SpanStart ''Connect'', ResolveTLS (WithSpan ctx ''Connect'') (GetTLS cfg) vault,
       SpanRecordError ''Connect'' err, SpanEnd ''Connect''])"
  by (simp add: ConnectContext_def Let_def)

lemma ConnectContext_tls:
  "GetURL cfg \<noteq> [] \<Longrightarrow> GetEnabled (GetTLS cfg) \<Longrightarrow>
   NewClientTLSConfig env (WithSpan ctx ''Connect'') (GetTLS cfg) vault = Inr t \<Longrightarrow>
   ConnectContext env ctx cfg vault =
     (case ConnectContext_options (WithSpan ctx ''Connect'') cfg vault
             [WithUnaryInterceptor UnaryClientInterceptor,
              WithStreamInterceptor StreamClientInterceptor,
              WithTransportCredentials (NewTLS t)] of
        (opts, c, ua) \<Rightarrow>
          ConnectContext_dial env c cfg opts ua
            [SpanStart ''Connect'', ResolveTLS (WithSpan ctx ''Connect'') (GetTLS cfg) vault])"
  by (simp add: ConnectContext_def Let_def)

lemma dial_calls_ConnectContext:
  "dial_calls (snd (ConnectContext env ctx cfg vault)) =
     (if GetURL cfg = [] then []
      else if GetEnabled (GetTLS cfg) then
        (case NewClientTLSConfig env (WithSpan ctx ''Connect'') (GetTLS cfg) vault of
           Inl err \<Rightarrow> []
         | Inr t \<Rightarrow>
             [(fst (snd (ConnectContext_options (WithSpan ctx ''Connect'') cfg vault [])),
               GetURL cfg,
               [WithUnaryInterceptor UnaryClientInterceptor,
                WithStreamInterceptor StreamClientInterceptor,
                WithTransportCredentials (NewTLS t)]
                 @ fst (ConnectContext_options (WithSpan ctx ''Connect'') cfg vault []))])
      else
        [(fst (snd (ConnectContext_options (WithSpan ctx ''Connect'') cfg vault [])),
          GetURL cfg,
          [WithUnaryInterceptor UnaryClientInterceptor,
           WithStreamInterceptor StreamClientInterceptor, WithInsecure]
            @ fst (ConnectContext_options (WithSpan ctx ''Connect'') cfg vault []))])"
proof (cases "GetURL cfg = []")
  case True
  then show ?thesis
    by (simp add: ConnectContext_no_url dial_calls_Nil dial_calls_Cons)
next
  case url: False
  show ?thesis
  proof (cases "GetEnabled (GetTLS cfg)")
    case False
    with url show ?thesis
      by (simp add: ConnectContext_insecure ConnectContext_dial_calls split_beta
          ConnectContext_options_append [of _ _ _ "_ # _"] ConnectContext_options_context
          dial_calls_Nil dial_calls_Cons split del: if_split)
  next
    case tls: True
    show ?thesis
    proof (cases "NewClientTLSConfig env (WithSpan ctx ''Connect'') (GetTLS cfg) vault")
      case (Inl err)
      with url tls show ?thesis
        by (simp add: ConnectContext_tls_error dial_calls_Nil dial_calls_Cons)
    next
      case (Inr t)
      with url tls show ?thesis
        by (simp add: ConnectContext_tls ConnectContext_dial_calls split_beta
            ConnectContext_options_append [of _ _ _ "_ # _"] ConnectContext_options_context
            dial_calls_Nil dial_calls_Cons split del: if_split)
    qed
  qed
qed

lemma resolver_calls_ConnectContext:
  "resolver_calls (snd (ConnectContext env ctx cfg vault)) =
     (if GetURL cfg \<noteq> [] \<and> GetEnabled (GetTLS cfg)
      then [(WithSpan ctx ''Connect'', GetTLS cfg, vault)] else [])"
proof (cases "GetURL cfg = []")
  case True
  then show ?thesis
    by (simp add: ConnectContext_no_url resolver_calls_Nil resolver_calls_Cons)
next
  case url: False
  show ?thesis
  proof (cases "GetEnabled (GetTLS cfg)")
    case False
    with url show ?thesis
      by (simp add: ConnectContext_insecure ConnectContext_dial_resolver_calls split_beta
          resolver_calls_Nil resolver_calls_Cons)
  next
    case tls: True
    show ?thesis
    proof (cases "NewClientTLSConfig env (WithSpan ctx ''Connect'') (GetTLS cfg) vault")
      case (Inl err)
      with url tls show ?thesis
        by (simp add: ConnectContext_tls_error resolver_calls_Nil resolver_calls_Cons)
    next
      case (Inr t)
      with url tls show ?thesis
        by (simp add: ConnectContext_tls ConnectContext_dial_resolver_calls split_beta
            resolver_calls_Nil resolver_calls_Cons)
    qed
  qed
qed

subsection \<open>The options and the dials of a run\<close>

lemma options_no_transport_security:
  "WithInsecure \<notin> set (fst (ConnectContext_options ctx cfg vault []))"
  "WithTransportCredentials tc \<notin> set (fst (ConnectContext_options ctx cfg vault []))"
  by (simp_all add: ConnectContext_options_closed in_set_guarded split del: if_split)

lemma length_dial_calls_ConnectContext:
  "length (dial_calls (snd (ConnectContext env ctx cfg vault)))
     = (if reaches_dial env ctx cfg vault then 1 else 0)"
  by (simp add: dial_calls_ConnectContext reaches_dial_def split: sum.splits)

lemma fixture_run_plain:
  "dial_calls (snd (ConnectContext fixture_env Background fixture_cfg fixture_vault)) =
     [(WithSpan Background ''Connect'', ''svc:443'',
       [WithUnaryInterceptor UnaryClientInterceptor,
        WithStreamInterceptor StreamClientInterceptor,
        WithInsecure,
        WithPerRPCCredentials ContextCredentials,
        WithUserAgent ''orlop/0.0.0''])]"
  by (simp add: dial_calls_ConnectContext ConnectContext_options_closed fixture_cfg_def
      Name_def Version_def)

lemma fixture_run_tuned:
  "dial_calls (snd (ConnectContext fixture_env Background fixture_cfg_tuned fixture_vault)) =
     [(WithTimeout (WithSpan Background ''Connect'') 5, ''svc:443'',
       [WithUnaryInterceptor UnaryClientInterceptor,
        WithStreamInterceptor StreamClientInterceptor,
        WithTransportCredentials (NewTLS (TLSConfig ''chain-2020'')),
        WithPerRPCCredentials
          (SharedContextCredentials
             (TokenProvider \<lparr>GetID = ''api-key'', GetFile = [], GetSecret = []\<rparr> fixture_vault)),
        WithWriteBufferSize 4096,
        WithInitialWindowSize 65535,
        WithDefaultCallOptions [MaxCallRecvMsgSize 1048576],
        WithConnectParams (ConnectParams 20),
        WithBlock,
        WithUserAgent ''probe/1.2''])]"
  by (simp add: dial_calls_ConnectContext ConnectContext_options_closed fixture_cfg_tuned_def
      fixture_env_def)

lemma fixture_run_rotated:
  "dial_calls (snd (ConnectContext fixture_env_rotated Background fixture_cfg_tuned fixture_vault)) =
     [(WithTimeout (WithSpan Background ''Connect'') 5, ''svc:443'',
       [WithUnaryInterceptor UnaryClientInterceptor,
        WithStreamInterceptor StreamClientInterceptor,
        WithTransportCredentials (NewTLS (TLSConfig ''chain-2021'')),
        WithPerRPCCredentials
          (SharedContextCredentials
             (TokenProvider \<lparr>GetID = ''api-key'', GetFile = [], GetSecret = []\<rparr> fixture_vault)),
        WithWriteBufferSize 4096,
        WithInitialWindowSize 65535,
        WithDefaultCallOptions [MaxCallRecvMsgSize 1048576],
        WithConnectParams (ConnectParams 20),
        WithBlock,
        WithUserAgent ''probe/1.2''])]"
  by (simp add: dial_calls_ConnectContext ConnectContext_options_closed fixture_cfg_tuned_def
      fixture_env_rotated_def)

lemma per_rpc_credentials_of_options:
  "per_rpc_credentials_of (fst (ConnectContext_options ctx cfg vault [])) =
     [if GetID (GetShared (GetToken cfg)) = [] \<and> GetFile (GetShared (GetToken cfg)) = []
         \<and> GetSecret (GetShared (GetToken cfg)) = []
      then ContextCredentials
      else SharedContextCredentials (TokenProvider (GetShared (GetToken cfg)) vault)]"
  by (simp add: ConnectContext_options_closed per_rpc_credentials_of_def)

lemma dial_calls_ConnectContextD:
  assumes "(c, u, opts) \<in> set (dial_calls (snd (ConnectContext env ctx cfg vault)))"
  shows "\<exists>sec.
     (sec = WithInsecure \<and> \<not> GetEnabled (GetTLS cfg) \<or>
      (\<exists>t. sec = WithTransportCredentials (NewTLS t) \<and> GetEnabled (GetTLS cfg) \<and>
           NewClientTLSConfig env (WithSpan ctx ''Connect'') (GetTLS cfg) vault = Inr t))
     \<and> GetURL cfg \<noteq> [] \<and> u = GetURL cfg
     \<and> c = fst (snd (ConnectContext_options (WithSpan ctx ''Connect'') cfg vault []))
     \<and> opts = [WithUnaryInterceptor UnaryClientInterceptor,
               WithStreamInterceptor StreamClientInterceptor, sec]
               @ fst (ConnectContext_options (WithSpan ctx ''Connect'') cfg vault [])"
proof (cases "GetEnabled (GetTLS cfg)")
  case False
  with assms show ?thesis
    by (intro exI [of _ WithInsecure])
      (simp add: dial_calls_ConnectContext split: if_splits)
next
  case True
  show ?thesis
  proof (cases "NewClientTLSConfig env (WithSpan ctx ''Connect'') (GetTLS cfg) vault")
    case (Inl err)
    with assms True show ?thesis
      by (simp add: dial_calls_ConnectContext split: if_splits)
  next
    case (Inr t)
    with assms True show ?thesis
      by (intro exI [of _ "WithTransportCredentials (NewTLS t)"])
        (simp add: dial_calls_ConnectContext split: if_splits)
  qed
qed

lemma ConnectContext_dial_LoadKey_irrelevant:
  "ConnectContext_dial (env\<lparr>LoadKey := lk\<rparr>) ctx cfg opts ua tr
     = ConnectContext_dial env ctx cfg opts ua tr"
  by (simp add: ConnectContext_dial_def)

lemma ConnectContext_LoadKey_irrelevant:
  "ConnectContext (env\<lparr>LoadKey := lk\<rparr>) ctx cfg vault = ConnectContext env ctx cfg vault"
  by (simp add: ConnectContext_def Let_def split_beta ConnectContext_dial_LoadKey_irrelevant
      split: sum.splits)

lemma load_key_calls_ConnectContext:
  "load_key_calls (snd (ConnectContext env ctx cfg vault)) = []"
proof (cases "GetURL cfg = []")
  case True
  then show ?thesis
    by (simp add: ConnectContext_no_url load_key_calls_Nil load_key_calls_Cons)
next
  case url: False
  show ?thesis
  proof (cases "GetEnabled (GetTLS cfg)")
    case False
    with url show ?thesis
      by (simp add: ConnectContext_insecure ConnectContext_dial_load_key_calls split_beta
          load_key_calls_Nil load_key_calls_Cons)
  next
    case tls: True
    show ?thesis
    proof (cases "NewClientTLSConfig env (WithSpan ctx ''Connect'') (GetTLS cfg) vault")
      case (Inl err)
      with url tls show ?thesis
        by (simp add: ConnectContext_tls_error load_key_calls_Nil load_key_calls_Cons)
    next
      case (Inr t)
      with url tls show ?thesis
        by (simp add: ConnectContext_tls ConnectContext_dial_load_key_calls split_beta
            load_key_calls_Nil load_key_calls_Cons)
    qed
  qed
qed

lemma ConnectContext_result:
  assumes "reaches_dial env ctx cfg vault"
  shows "\<exists>c opts. dial_calls (snd (ConnectContext env ctx cfg vault)) = [(c, GetURL cfg, opts)]
           \<and> fst (ConnectContext env ctx cfg vault) = DialContext env c (GetURL cfg) opts"
proof (cases "GetEnabled (GetTLS cfg)")
  case False
  with assms have url: "GetURL cfg \<noteq> []"
    by (simp add: reaches_dial_def)
  with False show ?thesis
    by (simp add: ConnectContext_insecure ConnectContext_dial_calls ConnectContext_dial_result
        split_beta dial_calls_Nil dial_calls_Cons)
next
  case True
  with assms obtain t where url: "GetURL cfg \<noteq> []"
    and t: "NewClientTLSConfig env (WithSpan ctx ''Connect'') (GetTLS cfg) vault = Inr t"
    by (cases "NewClientTLSConfig env (WithSpan ctx ''Connect'') (GetTLS cfg) vault")
      (auto simp: reaches_dial_def)
  with True show ?thesis
    by (simp add: ConnectContext_tls ConnectContext_dial_calls ConnectContext_dial_result
        split_beta dial_calls_Nil dial_calls_Cons)
qed

lemma tuning_options_membership:
  "WithWriteBufferSize v \<in> set (fst (ConnectContext_options ctx cfg vault []))
     \<longleftrightarrow> 0 < GetWriteBufferSize cfg \<and> v = GetWriteBufferSize cfg"
  "WithReadBufferSize v \<in> set (fst (ConnectContext_options ctx cfg vault []))
     \<longleftrightarrow> 0 < GetReadBufferSize cfg \<and> v = GetReadBufferSize cfg"
  "WithInitialWindowSize v \<in> set (fst (ConnectContext_options ctx cfg vault []))
     \<longleftrightarrow> 0 < GetInitialWindowSize cfg \<and> v = GetInitialWindowSize cfg"
  "WithInitialConnWindowSize v \<in> set (fst (ConnectContext_options ctx cfg vault []))
     \<longleftrightarrow> 0 < GetInitialConnWindowSize cfg \<and> v = GetInitialConnWindowSize cfg"
  "WithConnectParams (ConnectParams v) \<in> set (fst (ConnectContext_options ctx cfg vault []))
     \<longleftrightarrow> 0 < GetMinConnectTimeout cfg \<and> v = GetMinConnectTimeout cfg"
  "WithDefaultCallOptions cos \<in> set (fst (ConnectContext_options ctx cfg vault []))
     \<longleftrightarrow> 0 < GetMaxCallRecvMsgSize cfg \<and> cos = [MaxCallRecvMsgSize (GetMaxCallRecvMsgSize cfg)]
        \<or> 0 < GetMaxCallSendMsgSize cfg \<and> cos = [MaxCallSendMsgSize (GetMaxCallSendMsgSize cfg)]"
  by (simp_all add: ConnectContext_options_closed in_set_guarded split del: if_split) auto

lemma user_agents_of_options:
  "user_agents_of (fst (ConnectContext_options ctx cfg vault []))
     = [if GetUserAgent cfg \<noteq> [] then GetUserAgent cfg else ''orlop/0.0.0'']"
  "last (fst (ConnectContext_options ctx cfg vault []))
     = WithUserAgent (if GetUserAgent cfg \<noteq> [] then GetUserAgent cfg else ''orlop/0.0.0'')"
  by (simp_all add: ConnectContext_options_closed user_agents_of_def Name_def Version_def)

lemma ConnectContext_options_not_Nil: "fst (ConnectContext_options ctx cfg vault []) \<noteq> []"
  by (simp add: ConnectContext_options_closed)

lemma ConnectContext_options_context_free:
  "fst (ConnectContext_options ctx cfg vault opts0) = fst (ConnectContext_options ctx' cfg vault opts0)"
  by (simp add: ConnectContext_options_closed split del: if_split)

lemma dialled_options_ConnectContext:
  "dialled_options (snd (ConnectContext env ctx cfg vault)) =
     (if GetURL cfg = [] then []
      else if GetEnabled (GetTLS cfg) then
        (case NewClientTLSConfig env (WithSpan ctx ''Connect'') (GetTLS cfg) vault of
           Inl err \<Rightarrow> []
         | Inr t \<Rightarrow>
             [[WithUnaryInterceptor UnaryClientInterceptor,
               WithStreamInterceptor StreamClientInterceptor,
               WithTransportCredentials (NewTLS t)]
                @ fst (ConnectContext_options Background cfg vault [])])
      else
        [[WithUnaryInterceptor UnaryClientInterceptor,
          WithStreamInterceptor StreamClientInterceptor, WithInsecure]
           @ fst (ConnectContext_options Background cfg vault [])])"
  by (simp add: dialled_options_def dial_calls_ConnectContext
      ConnectContext_options_context_free [of "WithSpan ctx ''Connect''" _ _ _ Background]
      split: sum.splits)

section \<open>The claims\<close>

subsection \<open>C1: an empty URL\<close>

text \<open>
  C1. For every configuration whose URL is empty, \<open>ConnectContext\<close> and \<open>Connect\<close>
  return the error made by \<^verbatim>\<open>errors.New("client: url required")\<close> and no connection
  (the result is \<open>Inl\<close>), the trace holds no dial, and the resolver is not called
  either. The message of the code carries the prefix \<^verbatim>\<open>client: \<close> before
  \<^verbatim>\<open>url required\<close>.
\<close>

theorem empty_url_config_error:
  assumes "GetURL cfg = []"
  shows "fst (ConnectContext env ctx cfg vault) = Inl (New ''client: url required'')
       \<and> dial_calls (snd (ConnectContext env ctx cfg vault)) = []
       \<and> resolver_calls (snd (ConnectContext env ctx cfg vault)) = []
       \<and> fst (Connect env cfg vault) = Inl (New ''client: url required'')
       \<and> dial_calls (snd (Connect env cfg vault)) = []"
  using assms
  by (simp add: Connect_def ConnectContext_no_url dial_calls_Nil dial_calls_Cons
      resolver_calls_Nil resolver_calls_Cons)

text \<open>C1 at the configuration without a target.\<close>

theorem empty_url_config_error_witness:
  "GetURL fixture_cfg_no_url = []
   \<and> fst (ConnectContext fixture_env Background fixture_cfg_no_url fixture_vault)
       = Inl (New ''client: url required'')
   \<and> dial_calls (snd (ConnectContext fixture_env Background fixture_cfg_no_url fixture_vault)) = []
   \<and> fst (Connect fixture_env fixture_cfg_no_url fixture_vault)
       = Inl (New ''client: url required'')
   \<and> dial_calls (snd (Connect fixture_env fixture_cfg_no_url fixture_vault)) = []"
proof -
  have h: "GetURL fixture_cfg_no_url = []"
    by (simp add: fixture_cfg_no_url_def)
  show ?thesis
    using h empty_url_config_error [OF h, of fixture_env Background fixture_vault] by simp
qed

subsection \<open>C2: TLS disabled\<close>

text \<open>
  C2. For every configuration with the TLS flag false, the resolver is never called,
  and the options of every dial that \<open>ConnectContext\<close> makes contain
  \<open>WithInsecure\<close> and no transport credentials. With a URL there is exactly one
  such dial.
\<close>

theorem tls_disabled_insecure:
  assumes "\<not> GetEnabled (GetTLS cfg)"
  shows "resolver_calls (snd (ConnectContext env ctx cfg vault)) = []
       \<and> (\<forall>(c, u, opts) \<in> set (dial_calls (snd (ConnectContext env ctx cfg vault))).
             WithInsecure \<in> set opts \<and> (\<forall>tc. WithTransportCredentials tc \<notin> set opts))
       \<and> (GetURL cfg \<noteq> [] \<longrightarrow>
             length (dial_calls (snd (ConnectContext env ctx cfg vault))) = 1)"
  using assms
  by (simp add: resolver_calls_ConnectContext dial_calls_ConnectContext
      options_no_transport_security)

text \<open>C2 at the configuration without TLS: one dial, marked insecure.\<close>

theorem tls_disabled_insecure_witness:
  "\<not> GetEnabled (GetTLS fixture_cfg) \<and> GetURL fixture_cfg \<noteq> []
   \<and> resolver_calls (snd (ConnectContext fixture_env Background fixture_cfg fixture_vault)) = []
   \<and> dial_calls (snd (ConnectContext fixture_env Background fixture_cfg fixture_vault)) =
       [(WithSpan Background ''Connect'', ''svc:443'',
         [WithUnaryInterceptor UnaryClientInterceptor,
          WithStreamInterceptor StreamClientInterceptor,
          WithInsecure,
          WithPerRPCCredentials ContextCredentials,
          WithUserAgent ''orlop/0.0.0''])]
   \<and> WithInsecure \<in> set [WithUnaryInterceptor UnaryClientInterceptor,
          WithStreamInterceptor StreamClientInterceptor,
          WithInsecure,
          WithPerRPCCredentials ContextCredentials,
          WithUserAgent ''orlop/0.0.0'']"
proof -
  have h: "\<not> GetEnabled (GetTLS fixture_cfg)" and u: "GetURL fixture_cfg \<noteq> []"
    by (simp_all add: fixture_cfg_def)
  show ?thesis
    using h u tls_disabled_insecure [OF h, of fixture_env Background fixture_vault]
    by (simp add: fixture_run_plain)
qed

subsection \<open>C3: TLS enabled\<close>

text \<open>
  C3 as stated fails: with TLS enabled and an empty URL the function returns at the
  check of the URL, before the resolver is reached, so the resolver is called not once
  but never.
\<close>

theorem tls_enabled_without_url_counterexample:
  "GetEnabled (GetTLS fixture_cfg_no_url)
   \<and> resolver_calls
       (snd (ConnectContext fixture_env Background fixture_cfg_no_url fixture_vault)) = []"
  by (simp add: resolver_calls_ConnectContext fixture_cfg_no_url_def fixture_cfg_tuned_def)

text \<open>
  C3, amended. For every configuration with a non-empty URL and the TLS flag true, the
  resolver is called exactly once, with the context of the span, the TLS settings of
  the configuration and the vault. If it returns an error, \<open>ConnectContext\<close> returns
  that error wrapped with \<^verbatim>\<open>client: failed to get client TLS config\<close> and does not
  dial; if it returns material, there is one dial, whose options start with the two
  interceptors followed by the TLS transport credentials, and are not marked insecure.
\<close>

theorem tls_enabled_resolver_once:
  assumes "GetURL cfg \<noteq> []" and "GetEnabled (GetTLS cfg)"
  shows "resolver_calls (snd (ConnectContext env ctx cfg vault))
           = [(WithSpan ctx ''Connect'', GetTLS cfg, vault)]
       \<and> (\<forall>err. NewClientTLSConfig env (WithSpan ctx ''Connect'') (GetTLS cfg) vault = Inl err
             \<longrightarrow> fst (ConnectContext env ctx cfg vault)
                   = Inl (Wrap err ''client: failed to get client TLS config'')
               \<and> dial_calls (snd (ConnectContext env ctx cfg vault)) = [])
       \<and> (\<forall>t. NewClientTLSConfig env (WithSpan ctx ''Connect'') (GetTLS cfg) vault = Inr t
             \<longrightarrow> (\<exists>c opts. dial_calls (snd (ConnectContext env ctx cfg vault))
                             = [(c, GetURL cfg, opts)]
                    \<and> take 3 opts = [WithUnaryInterceptor UnaryClientInterceptor,
                                      WithStreamInterceptor StreamClientInterceptor,
                                      WithTransportCredentials (NewTLS t)]
                    \<and> WithInsecure \<notin> set opts))"
  using assms
  by (simp add: resolver_calls_ConnectContext dial_calls_ConnectContext
      ConnectContext_tls_error options_no_transport_security dial_calls_Nil dial_calls_Cons)

text \<open>
  The amended C3 at the configuration with TLS, once with a resolver that returns
  material and once with one that fails.
\<close>

theorem tls_enabled_resolver_once_witness:
  "GetURL fixture_cfg_tuned \<noteq> [] \<and> GetEnabled (GetTLS fixture_cfg_tuned)
   \<and> resolver_calls (snd (ConnectContext fixture_env Background fixture_cfg_tuned fixture_vault))
       = [(WithSpan Background ''Connect'', GetTLS fixture_cfg_tuned, fixture_vault)]
   \<and> (\<exists>c opts. dial_calls
          (snd (ConnectContext fixture_env Background fixture_cfg_tuned fixture_vault))
            = [(c, ''svc:443'', opts)]
        \<and> take 3 opts = [WithUnaryInterceptor UnaryClientInterceptor,
                          WithStreamInterceptor StreamClientInterceptor,
                          WithTransportCredentials (NewTLS (TLSConfig ''chain-2020''))])
   \<and> resolver_calls
       (snd (ConnectContext fixture_env_no_material Background fixture_cfg_tuned fixture_vault))
       = [(WithSpan Background ''Connect'', GetTLS fixture_cfg_tuned, fixture_vault)]
   \<and> fst (ConnectContext fixture_env_no_material Background fixture_cfg_tuned fixture_vault)
       = Inl (Wrap (New ''tls: no certificate'') ''client: failed to get client TLS config'')
   \<and> dial_calls
       (snd (ConnectContext fixture_env_no_material Background fixture_cfg_tuned fixture_vault))
       = []"
proof -
  have u: "GetURL fixture_cfg_tuned \<noteq> []" and e: "GetEnabled (GetTLS fixture_cfg_tuned)"
    and url: "GetURL fixture_cfg_tuned = ''svc:443''"
    by (simp_all add: fixture_cfg_tuned_def)
  have ok: "NewClientTLSConfig fixture_env (WithSpan Background ''Connect'')
              (GetTLS fixture_cfg_tuned) fixture_vault = Inr (TLSConfig ''chain-2020'')"
    by (simp add: fixture_env_def)
  have ko: "NewClientTLSConfig fixture_env_no_material (WithSpan Background ''Connect'')
              (GetTLS fixture_cfg_tuned) fixture_vault = Inl (New ''tls: no certificate'')"
    by (simp add: fixture_env_no_material_def)
  show ?thesis
    using u e ok ko
      tls_enabled_resolver_once [OF u e, of fixture_env Background fixture_vault]
      tls_enabled_resolver_once [OF u e, of fixture_env_no_material Background fixture_vault]
    by (auto simp: url)
qed

subsection \<open>C4: the per-call credentials\<close>

text \<open>
  C4. The options of every dial hold exactly one per-call credentials option, and
  which one is decided by the three fields of the shared token source alone:
  \<open>ContextCredentials\<close> when the id, the file and the inline secret are all empty,
  \<open>SharedContextCredentials\<close> (with the token provider closed over the shared source
  and the vault) when any of them is not. Every run that reaches the dial makes exactly one
  dial.
\<close>

theorem credential_provider_selection:
  "(\<forall>(c, u, opts) \<in> set (dial_calls (snd (ConnectContext env ctx cfg vault))).
      per_rpc_credentials_of opts =
        [if GetID (GetShared (GetToken cfg)) = [] \<and> GetFile (GetShared (GetToken cfg)) = []
            \<and> GetSecret (GetShared (GetToken cfg)) = []
         then ContextCredentials
         else SharedContextCredentials (TokenProvider (GetShared (GetToken cfg)) vault)])
   \<and> (reaches_dial env ctx cfg vault \<longrightarrow>
         length (dial_calls (snd (ConnectContext env ctx cfg vault))) = 1)"
proof (intro conjI ballI impI)
  fix d
  assume d: "d \<in> set (dial_calls (snd (ConnectContext env ctx cfg vault)))"
  obtain c u opts where cuo: "d = (c, u, opts)"
    by (cases d) auto
  from d cuo obtain sec where
    sec: "sec = WithInsecure \<or> (\<exists>t. sec = WithTransportCredentials (NewTLS t))"
    and opts: "opts = [WithUnaryInterceptor UnaryClientInterceptor,
                 WithStreamInterceptor StreamClientInterceptor, sec]
                 @ fst (ConnectContext_options (WithSpan ctx ''Connect'') cfg vault [])"
    using dial_calls_ConnectContextD [of c u opts env ctx cfg vault] by auto
  have "per_rpc_credentials_of opts
          = per_rpc_credentials_of (fst (ConnectContext_options (WithSpan ctx ''Connect'') cfg vault []))"
    using sec unfolding opts by (auto simp: per_rpc_credentials_of_def)
  then show "case d of (c, u, opts) \<Rightarrow>
      per_rpc_credentials_of opts =
        [if GetID (GetShared (GetToken cfg)) = [] \<and> GetFile (GetShared (GetToken cfg)) = []
            \<and> GetSecret (GetShared (GetToken cfg)) = []
         then ContextCredentials
         else SharedContextCredentials (TokenProvider (GetShared (GetToken cfg)) vault)]"
    by (simp add: cuo per_rpc_credentials_of_options)
next
  assume "reaches_dial env ctx cfg vault"
  then show "length (dial_calls (snd (ConnectContext env ctx cfg vault))) = 1"
    by (simp add: length_dial_calls_ConnectContext)
qed

text \<open>
  C4 at the configuration with no shared secret (contextual credentials) and at the one
  with a shared id (shared credentials).
\<close>

theorem credential_provider_selection_witness:
  "reaches_dial fixture_env Background fixture_cfg fixture_vault
   \<and> reaches_dial fixture_env Background fixture_cfg_tuned fixture_vault
   \<and> dial_calls (snd (ConnectContext fixture_env Background fixture_cfg fixture_vault)) =
       [(WithSpan Background ''Connect'', ''svc:443'',
         [WithUnaryInterceptor UnaryClientInterceptor,
          WithStreamInterceptor StreamClientInterceptor,
          WithInsecure,
          WithPerRPCCredentials ContextCredentials,
          WithUserAgent ''orlop/0.0.0''])]
   \<and> per_rpc_credentials_of
        [WithUnaryInterceptor UnaryClientInterceptor,
         WithStreamInterceptor StreamClientInterceptor,
         WithInsecure,
         WithPerRPCCredentials ContextCredentials,
         WithUserAgent ''orlop/0.0.0''] = [ContextCredentials]
   \<and> length (dial_calls
        (snd (ConnectContext fixture_env Background fixture_cfg_tuned fixture_vault))) = 1
   \<and> map (\<lambda>(c, u, opts). per_rpc_credentials_of opts)
        (dial_calls (snd (ConnectContext fixture_env Background fixture_cfg_tuned fixture_vault)))
       = [[SharedContextCredentials
             (TokenProvider \<lparr>GetID = ''api-key'', GetFile = [], GetSecret = []\<rparr>
                fixture_vault)]]"
proof -
  have r1: "reaches_dial fixture_env Background fixture_cfg fixture_vault"
    by (simp add: reaches_dial_def fixture_cfg_def)
  have r2: "reaches_dial fixture_env Background fixture_cfg_tuned fixture_vault"
    by (simp add: reaches_dial_def fixture_cfg_tuned_def fixture_env_def)
  have sh: "GetShared (GetToken fixture_cfg) = \<lparr>GetID = [], GetFile = [], GetSecret = []\<rparr>"
    "GetShared (GetToken fixture_cfg_tuned)
       = \<lparr>GetID = ''api-key'', GetFile = [], GetSecret = []\<rparr>"
    by (simp_all add: fixture_cfg_def fixture_cfg_tuned_def)
  show ?thesis
    using r1 r2
      credential_provider_selection [of fixture_env Background fixture_cfg fixture_vault]
      credential_provider_selection [of fixture_env Background fixture_cfg_tuned fixture_vault]
    by (simp add: fixture_run_plain fixture_run_tuned sh)
qed

subsection \<open>C5: a secret that cannot be loaded\<close>

text \<open>
  C5. Whenever the lookup of the secret fails, the token provider returns the empty
  string and logs the error (\<^verbatim>\<open>client: could not load secret key\<close>). The bootstrap
  never looks a secret up: its trace holds no call of \<^verbatim>\<open>LoadKey\<close>, its result and
  trace are the same whatever \<^verbatim>\<open>LoadKey\<close> would answer, and every run that gets past
  the URL check and the TLS resolution dials once and returns what the dial returns.
\<close>

theorem token_fetch_failure_not_fatal:
  assumes "LoadKey env (WithSpan ctx ''TokenProvider'') shared vault ''secret'' = Inl err"
  shows "fst (tokenProvider env (TokenProvider shared vault) ctx) = []
       \<and> LogError err ''client: could not load secret key''
            \<in> set (snd (tokenProvider env (TokenProvider shared vault) ctx))
       \<and> load_key_calls (snd (ConnectContext env ctx' cfg vault')) = []
       \<and> (\<forall>lk. ConnectContext (env\<lparr>LoadKey := lk\<rparr>) ctx' cfg vault'
                  = ConnectContext env ctx' cfg vault')
       \<and> (reaches_dial env ctx' cfg vault' \<longrightarrow>
            (\<exists>c opts. dial_calls (snd (ConnectContext env ctx' cfg vault'))
                        = [(c, GetURL cfg, opts)]
               \<and> fst (ConnectContext env ctx' cfg vault')
                   = DialContext env c (GetURL cfg) opts))"
  using assms
  by (simp add: Let_def load_key_calls_ConnectContext ConnectContext_LoadKey_irrelevant
      ConnectContext_result)

text \<open>
  C5 at a secret store that fails, with the shared-secret configuration: the token is
  empty, the error is logged, and the bootstrap dials and returns the connection.
\<close>

theorem token_fetch_failure_not_fatal_witness:
  "LoadKey fixture_env (WithSpan Background ''TokenProvider'')
      \<lparr>GetID = ''api-key'', GetFile = [], GetSecret = []\<rparr> fixture_vault ''secret''
     = Inl (New ''vault: sealed'')
   \<and> tokenProvider fixture_env
        (TokenProvider \<lparr>GetID = ''api-key'', GetFile = [], GetSecret = []\<rparr> fixture_vault)
        Background
     = ([], [SpanStart ''TokenProvider'',
             LoadKeyCall (WithSpan Background ''TokenProvider'')
               \<lparr>GetID = ''api-key'', GetFile = [], GetSecret = []\<rparr> fixture_vault ''secret'',
             SpanRecordError ''TokenProvider'' (New ''vault: sealed''),
             LogError (New ''vault: sealed'') ''client: could not load secret key'',
             SpanEnd ''TokenProvider''])
   \<and> reaches_dial fixture_env Background fixture_cfg_tuned fixture_vault
   \<and> length (dial_calls
        (snd (ConnectContext fixture_env Background fixture_cfg_tuned fixture_vault))) = 1
   \<and> fst (ConnectContext fixture_env Background fixture_cfg_tuned fixture_vault)
       = Inr (ClientConn ''svc:443'')"
proof -
  have f: "LoadKey fixture_env (WithSpan Background ''TokenProvider'')
      \<lparr>GetID = ''api-key'', GetFile = [], GetSecret = []\<rparr> fixture_vault ''secret''
     = Inl (New ''vault: sealed'')"
    by (simp add: fixture_env_def)
  have r: "reaches_dial fixture_env Background fixture_cfg_tuned fixture_vault"
    by (simp add: reaches_dial_def fixture_cfg_tuned_def fixture_env_def)
  have d: "DialContext fixture_env c (GetURL fixture_cfg_tuned) opts = Inr (ClientConn ''svc:443'')"
    for c opts
    by (simp add: fixture_env_def fixture_cfg_tuned_def)
  show ?thesis
    using f r
      token_fetch_failure_not_fatal [OF f, of Background fixture_cfg_tuned fixture_vault]
    by (auto simp: Let_def d)
qed

subsection \<open>C6: the tuning options\<close>

text \<open>
  C6. In the options of every dial, each of the seven tuning options is present exactly
  when its field is strictly positive, and then with the value of the field and no
  other: the write and read buffer sizes, the initial window and connection window
  sizes, the maximal receive and send message sizes (as default call options), and the
  minimal connect timeout (as connect parameters). Every run that reaches the dial
  makes exactly one dial.
\<close>

theorem tuning_options_opt_in:
  "(\<forall>(c, u, opts) \<in> set (dial_calls (snd (ConnectContext env ctx cfg vault))).
      (\<forall>v. WithWriteBufferSize v \<in> set opts
             \<longleftrightarrow> 0 < GetWriteBufferSize cfg \<and> v = GetWriteBufferSize cfg)
    \<and> (\<forall>v. WithReadBufferSize v \<in> set opts
             \<longleftrightarrow> 0 < GetReadBufferSize cfg \<and> v = GetReadBufferSize cfg)
    \<and> (\<forall>v. WithInitialWindowSize v \<in> set opts
             \<longleftrightarrow> 0 < GetInitialWindowSize cfg \<and> v = GetInitialWindowSize cfg)
    \<and> (\<forall>v. WithInitialConnWindowSize v \<in> set opts
             \<longleftrightarrow> 0 < GetInitialConnWindowSize cfg \<and> v = GetInitialConnWindowSize cfg)
    \<and> (\<forall>v. (\<exists>cos. WithDefaultCallOptions cos \<in> set opts \<and> MaxCallRecvMsgSize v \<in> set cos)
             \<longleftrightarrow> 0 < GetMaxCallRecvMsgSize cfg \<and> v = GetMaxCallRecvMsgSize cfg)
    \<and> (\<forall>v. (\<exists>cos. WithDefaultCallOptions cos \<in> set opts \<and> MaxCallSendMsgSize v \<in> set cos)
             \<longleftrightarrow> 0 < GetMaxCallSendMsgSize cfg \<and> v = GetMaxCallSendMsgSize cfg)
    \<and> (\<forall>v. WithConnectParams (ConnectParams v) \<in> set opts
             \<longleftrightarrow> 0 < GetMinConnectTimeout cfg \<and> v = GetMinConnectTimeout cfg))
   \<and> (reaches_dial env ctx cfg vault \<longrightarrow>
         length (dial_calls (snd (ConnectContext env ctx cfg vault))) = 1)"
proof (intro conjI ballI impI)
  fix d
  assume d: "d \<in> set (dial_calls (snd (ConnectContext env ctx cfg vault)))"
  obtain c u opts where cuo: "d = (c, u, opts)"
    by (cases d) auto
  from d cuo obtain sec where
    sec: "sec = WithInsecure \<or> (\<exists>t. sec = WithTransportCredentials (NewTLS t))"
    and opts: "opts = [WithUnaryInterceptor UnaryClientInterceptor,
                 WithStreamInterceptor StreamClientInterceptor, sec]
                 @ fst (ConnectContext_options (WithSpan ctx ''Connect'') cfg vault [])"
    using dial_calls_ConnectContextD [of c u opts env ctx cfg vault] by auto
  have wb: "\<forall>v. WithWriteBufferSize v \<in> set opts
             \<longleftrightarrow> 0 < GetWriteBufferSize cfg \<and> v = GetWriteBufferSize cfg"
    using sec unfolding opts by (auto simp: tuning_options_membership)
  have rb: "\<forall>v. WithReadBufferSize v \<in> set opts
             \<longleftrightarrow> 0 < GetReadBufferSize cfg \<and> v = GetReadBufferSize cfg"
    using sec unfolding opts by (auto simp: tuning_options_membership)
  have iw: "\<forall>v. WithInitialWindowSize v \<in> set opts
             \<longleftrightarrow> 0 < GetInitialWindowSize cfg \<and> v = GetInitialWindowSize cfg"
    using sec unfolding opts by (auto simp: tuning_options_membership)
  have cw: "\<forall>v. WithInitialConnWindowSize v \<in> set opts
             \<longleftrightarrow> 0 < GetInitialConnWindowSize cfg \<and> v = GetInitialConnWindowSize cfg"
    using sec unfolding opts by (auto simp: tuning_options_membership)
  have rm: "\<forall>v. (\<exists>cos. WithDefaultCallOptions cos \<in> set opts \<and> MaxCallRecvMsgSize v \<in> set cos)
             \<longleftrightarrow> 0 < GetMaxCallRecvMsgSize cfg \<and> v = GetMaxCallRecvMsgSize cfg"
    using sec unfolding opts by (auto simp: tuning_options_membership)
  have sm: "\<forall>v. (\<exists>cos. WithDefaultCallOptions cos \<in> set opts \<and> MaxCallSendMsgSize v \<in> set cos)
             \<longleftrightarrow> 0 < GetMaxCallSendMsgSize cfg \<and> v = GetMaxCallSendMsgSize cfg"
    using sec unfolding opts by (auto simp: tuning_options_membership)
  have mc: "\<forall>v. WithConnectParams (ConnectParams v) \<in> set opts
             \<longleftrightarrow> 0 < GetMinConnectTimeout cfg \<and> v = GetMinConnectTimeout cfg"
    using sec unfolding opts by (auto simp: tuning_options_membership)
  from wb rb iw cw rm sm mc
  show "case d of (c, u, opts) \<Rightarrow>
      (\<forall>v. WithWriteBufferSize v \<in> set opts
             \<longleftrightarrow> 0 < GetWriteBufferSize cfg \<and> v = GetWriteBufferSize cfg)
    \<and> (\<forall>v. WithReadBufferSize v \<in> set opts
             \<longleftrightarrow> 0 < GetReadBufferSize cfg \<and> v = GetReadBufferSize cfg)
    \<and> (\<forall>v. WithInitialWindowSize v \<in> set opts
             \<longleftrightarrow> 0 < GetInitialWindowSize cfg \<and> v = GetInitialWindowSize cfg)
    \<and> (\<forall>v. WithInitialConnWindowSize v \<in> set opts
             \<longleftrightarrow> 0 < GetInitialConnWindowSize cfg \<and> v = GetInitialConnWindowSize cfg)
    \<and> (\<forall>v. (\<exists>cos. WithDefaultCallOptions cos \<in> set opts \<and> MaxCallRecvMsgSize v \<in> set cos)
             \<longleftrightarrow> 0 < GetMaxCallRecvMsgSize cfg \<and> v = GetMaxCallRecvMsgSize cfg)
    \<and> (\<forall>v. (\<exists>cos. WithDefaultCallOptions cos \<in> set opts \<and> MaxCallSendMsgSize v \<in> set cos)
             \<longleftrightarrow> 0 < GetMaxCallSendMsgSize cfg \<and> v = GetMaxCallSendMsgSize cfg)
    \<and> (\<forall>v. WithConnectParams (ConnectParams v) \<in> set opts
             \<longleftrightarrow> 0 < GetMinConnectTimeout cfg \<and> v = GetMinConnectTimeout cfg)"
    unfolding cuo by (simp only: prod.case simp_thms)
next
  assume "reaches_dial env ctx cfg vault"
  then show "length (dial_calls (snd (ConnectContext env ctx cfg vault))) = 1"
    by (simp add: length_dial_calls_ConnectContext)
qed

text \<open>
  C6 at the tuned configuration, whose fields are positive (present), zero and negative
  (absent), and at the configuration with every field zero (no tuning option at all).
\<close>

theorem tuning_options_opt_in_witness:
  "reaches_dial fixture_env Background fixture_cfg_tuned fixture_vault
   \<and> dial_calls (snd (ConnectContext fixture_env Background fixture_cfg_tuned fixture_vault)) =
     [(WithTimeout (WithSpan Background ''Connect'') 5, ''svc:443'',
       [WithUnaryInterceptor UnaryClientInterceptor,
        WithStreamInterceptor StreamClientInterceptor,
        WithTransportCredentials (NewTLS (TLSConfig ''chain-2020'')),
        WithPerRPCCredentials
          (SharedContextCredentials
             (TokenProvider \<lparr>GetID = ''api-key'', GetFile = [], GetSecret = []\<rparr> fixture_vault)),
        WithWriteBufferSize 4096,
        WithInitialWindowSize 65535,
        WithDefaultCallOptions [MaxCallRecvMsgSize 1048576],
        WithConnectParams (ConnectParams 20),
        WithBlock,
        WithUserAgent ''probe/1.2''])]
   \<and> GetWriteBufferSize fixture_cfg_tuned = 4096
   \<and> GetReadBufferSize fixture_cfg_tuned = 0
   \<and> GetInitialWindowSize fixture_cfg_tuned = 65535
   \<and> GetInitialConnWindowSize fixture_cfg_tuned = - 1
   \<and> GetMaxCallRecvMsgSize fixture_cfg_tuned = 1048576
   \<and> GetMaxCallSendMsgSize fixture_cfg_tuned = 0
   \<and> GetMinConnectTimeout fixture_cfg_tuned = 20
   \<and> dial_calls (snd (ConnectContext fixture_env Background fixture_cfg fixture_vault)) =
       [(WithSpan Background ''Connect'', ''svc:443'',
         [WithUnaryInterceptor UnaryClientInterceptor,
          WithStreamInterceptor StreamClientInterceptor,
          WithInsecure,
          WithPerRPCCredentials ContextCredentials,
          WithUserAgent ''orlop/0.0.0''])]"
proof -
  have r: "reaches_dial fixture_env Background fixture_cfg_tuned fixture_vault"
    by (simp add: reaches_dial_def fixture_cfg_tuned_def fixture_env_def)
  have v: "GetWriteBufferSize fixture_cfg_tuned = 4096"
    "GetReadBufferSize fixture_cfg_tuned = 0"
    "GetInitialWindowSize fixture_cfg_tuned = 65535"
    "GetInitialConnWindowSize fixture_cfg_tuned = - 1"
    "GetMaxCallRecvMsgSize fixture_cfg_tuned = 1048576"
    "GetMaxCallSendMsgSize fixture_cfg_tuned = 0"
    "GetMinConnectTimeout fixture_cfg_tuned = 20"
    by (simp_all add: fixture_cfg_tuned_def)
  show ?thesis
    using r v
      tuning_options_opt_in [of fixture_env Background fixture_cfg_tuned fixture_vault]
      tuning_options_opt_in [of fixture_env Background fixture_cfg fixture_vault]
    by (simp only: fixture_run_tuned fixture_run_plain simp_thms)
qed

subsection \<open>C7: the user agent\<close>

text \<open>
  C7. The options of every dial hold exactly one user agent option, it is the last
  option, and its value is the user agent of the configuration when that is not empty
  and \<^verbatim>\<open>orlop/0.0.0\<close> otherwise, which is the name and the version of package
  \<^verbatim>\<open>version\<close> joined by a slash.
\<close>

theorem user_agent_option:
  "(\<forall>(c, u, opts) \<in> set (dial_calls (snd (ConnectContext env ctx cfg vault))).
      user_agents_of opts
        = [if GetUserAgent cfg \<noteq> [] then GetUserAgent cfg else ''orlop/0.0.0'']
    \<and> last opts
        = WithUserAgent (if GetUserAgent cfg \<noteq> [] then GetUserAgent cfg else ''orlop/0.0.0''))
   \<and> Name @ ''/'' @ Version = ''orlop/0.0.0''
   \<and> (reaches_dial env ctx cfg vault \<longrightarrow>
         length (dial_calls (snd (ConnectContext env ctx cfg vault))) = 1)"
proof (intro conjI ballI impI)
  fix d
  assume d: "d \<in> set (dial_calls (snd (ConnectContext env ctx cfg vault)))"
  obtain c u opts where cuo: "d = (c, u, opts)"
    by (cases d) auto
  from d cuo obtain sec where
    sec: "sec = WithInsecure \<or> (\<exists>t. sec = WithTransportCredentials (NewTLS t))"
    and opts: "opts = [WithUnaryInterceptor UnaryClientInterceptor,
                 WithStreamInterceptor StreamClientInterceptor, sec]
                 @ fst (ConnectContext_options (WithSpan ctx ''Connect'') cfg vault [])"
    using dial_calls_ConnectContextD [of c u opts env ctx cfg vault] by auto
  have "user_agents_of opts
          = user_agents_of (fst (ConnectContext_options (WithSpan ctx ''Connect'') cfg vault []))"
    using sec unfolding opts by (auto simp: user_agents_of_def)
  moreover have "last opts = last (fst (ConnectContext_options (WithSpan ctx ''Connect'') cfg vault []))"
    unfolding opts by (simp add: ConnectContext_options_not_Nil)
  ultimately show "case d of (c, u, opts) \<Rightarrow>
      user_agents_of opts
        = [if GetUserAgent cfg \<noteq> [] then GetUserAgent cfg else ''orlop/0.0.0'']
    \<and> last opts
        = WithUserAgent (if GetUserAgent cfg \<noteq> [] then GetUserAgent cfg else ''orlop/0.0.0'')"
    by (simp add: cuo user_agents_of_options)
next
  show "Name @ ''/'' @ Version = ''orlop/0.0.0''"
    by (simp add: Name_def Version_def)
next
  assume "reaches_dial env ctx cfg vault"
  then show "length (dial_calls (snd (ConnectContext env ctx cfg vault))) = 1"
    by (simp add: length_dial_calls_ConnectContext)
qed

text \<open>
  C7 at the configuration with no user agent (the default) and at the one that
  overrides it.
\<close>

theorem user_agent_option_witness:
  "reaches_dial fixture_env Background fixture_cfg fixture_vault
   \<and> reaches_dial fixture_env Background fixture_cfg_tuned fixture_vault
   \<and> GetUserAgent fixture_cfg = []
   \<and> map user_agents_of (dialled_options
        (snd (ConnectContext fixture_env Background fixture_cfg fixture_vault)))
       = [[''orlop/0.0.0'']]
   \<and> GetUserAgent fixture_cfg_tuned = ''probe/1.2''
   \<and> map user_agents_of (dialled_options
        (snd (ConnectContext fixture_env Background fixture_cfg_tuned fixture_vault)))
       = [[''probe/1.2'']]
   \<and> map last (dialled_options
        (snd (ConnectContext fixture_env Background fixture_cfg_tuned fixture_vault)))
       = [WithUserAgent ''probe/1.2'']"
proof -
  have r1: "reaches_dial fixture_env Background fixture_cfg fixture_vault"
    by (simp add: reaches_dial_def fixture_cfg_def)
  have r2: "reaches_dial fixture_env Background fixture_cfg_tuned fixture_vault"
    by (simp add: reaches_dial_def fixture_cfg_tuned_def fixture_env_def)
  have ua: "GetUserAgent fixture_cfg = []" "GetUserAgent fixture_cfg_tuned = ''probe/1.2''"
    by (simp_all add: fixture_cfg_def fixture_cfg_tuned_def)
  show ?thesis
    using r1 r2
      user_agent_option [of fixture_env Background fixture_cfg fixture_vault]
      user_agent_option [of fixture_env Background fixture_cfg_tuned fixture_vault]
    by (simp add: fixture_run_plain fixture_run_tuned ua dialled_options_def)
qed

subsection \<open>C8: the connect timeout\<close>

text \<open>
  C8. Every dial is made with the context of the span bounded by the connect timeout
  when the timeout is strictly positive, and with the context of the span as it is
  when the timeout is zero or negative. Every run that reaches the dial makes exactly
  one dial.
\<close>

theorem dial_context_timeout:
  "(\<forall>(c, u, opts) \<in> set (dial_calls (snd (ConnectContext env ctx cfg vault))).
      (0 < GetConnTimeout cfg \<longrightarrow>
         c = WithTimeout (WithSpan ctx ''Connect'') (GetConnTimeout cfg))
    \<and> (GetConnTimeout cfg \<le> 0 \<longrightarrow> c = WithSpan ctx ''Connect''))
   \<and> (reaches_dial env ctx cfg vault \<longrightarrow>
         length (dial_calls (snd (ConnectContext env ctx cfg vault))) = 1)"
proof (intro conjI ballI impI)
  fix d
  assume d: "d \<in> set (dial_calls (snd (ConnectContext env ctx cfg vault)))"
  obtain c u opts where cuo: "d = (c, u, opts)"
    by (cases d) auto
  from d cuo have
    "c = fst (snd (ConnectContext_options (WithSpan ctx ''Connect'') cfg vault []))"
    using dial_calls_ConnectContextD [of c u opts env ctx cfg vault] by auto
  then show "case d of (c, u, opts) \<Rightarrow>
      (0 < GetConnTimeout cfg \<longrightarrow>
         c = WithTimeout (WithSpan ctx ''Connect'') (GetConnTimeout cfg))
    \<and> (GetConnTimeout cfg \<le> 0 \<longrightarrow> c = WithSpan ctx ''Connect'')"
    by (simp add: cuo ConnectContext_options_context)
next
  assume "reaches_dial env ctx cfg vault"
  then show "length (dial_calls (snd (ConnectContext env ctx cfg vault))) = 1"
    by (simp add: length_dial_calls_ConnectContext)
qed

text \<open>
  C8 at the configuration with a timeout of 5 and at the one with none.
\<close>

theorem dial_context_timeout_witness:
  "reaches_dial fixture_env Background fixture_cfg fixture_vault
   \<and> reaches_dial fixture_env Background fixture_cfg_tuned fixture_vault
   \<and> GetConnTimeout fixture_cfg_tuned = 5
   \<and> map fst (dial_calls
        (snd (ConnectContext fixture_env Background fixture_cfg_tuned fixture_vault)))
       = [WithTimeout (WithSpan Background ''Connect'') 5]
   \<and> GetConnTimeout fixture_cfg = 0
   \<and> map fst (dial_calls
        (snd (ConnectContext fixture_env Background fixture_cfg fixture_vault)))
       = [WithSpan Background ''Connect'']"
proof -
  have r1: "reaches_dial fixture_env Background fixture_cfg fixture_vault"
    by (simp add: reaches_dial_def fixture_cfg_def)
  have r2: "reaches_dial fixture_env Background fixture_cfg_tuned fixture_vault"
    by (simp add: reaches_dial_def fixture_cfg_tuned_def fixture_env_def)
  have t: "GetConnTimeout fixture_cfg = 0" "GetConnTimeout fixture_cfg_tuned = 5"
    by (simp_all add: fixture_cfg_def fixture_cfg_tuned_def)
  show ?thesis
    using r1 r2
      dial_context_timeout [of fixture_env Background fixture_cfg fixture_vault]
      dial_context_timeout [of fixture_env Background fixture_cfg_tuned fixture_vault]
    by (simp add: fixture_run_plain fixture_run_tuned t)
qed

subsection \<open>C9: the options as a function of the configuration\<close>

text \<open>
  C9 as stated fails: the transport credentials are made of what the resolver returns,
  so two runs on the same configuration and vault, with TLS enabled, dial with
  different options when the resolver returns different material.
\<close>

theorem options_depend_on_resolver_counterexample:
  "dialled_options (snd (ConnectContext fixture_env Background fixture_cfg_tuned fixture_vault))
     \<noteq> dialled_options
         (snd (ConnectContext fixture_env_rotated Background fixture_cfg_tuned fixture_vault))"
  by (simp add: dialled_options_def fixture_run_tuned fixture_run_rotated)

text \<open>
  C9, amended. Two runs on the same configuration and vault dial with the same options
  in the same order whenever, with TLS enabled, the resolver returns the same result
  in both; the collaborators and the caller's context may differ otherwise. The
  options of a dial are, in this order: the unary and the stream interceptor, the
  transport security (insecure, or the credentials made of the resolver's material),
  the per-call credentials, the tuning options that are enabled (write buffer, read
  buffer, window, connection window, receive size, send size, minimal connect timeout,
  block), and the user agent.
\<close>

theorem options_determined_by_config_and_material:
  assumes "GetEnabled (GetTLS cfg) \<longrightarrow>
             NewClientTLSConfig env (WithSpan ctx ''Connect'') (GetTLS cfg) vault
               = NewClientTLSConfig env' (WithSpan ctx' ''Connect'') (GetTLS cfg) vault"
  shows "dialled_options (snd (ConnectContext env ctx cfg vault))
           = dialled_options (snd (ConnectContext env' ctx' cfg vault))
       \<and> (\<forall>opts \<in> set (dialled_options (snd (ConnectContext env ctx cfg vault))).
            \<exists>sec.
              (if GetEnabled (GetTLS cfg)
               then \<exists>t. NewClientTLSConfig env (WithSpan ctx ''Connect'') (GetTLS cfg) vault = Inr t
                        \<and> sec = WithTransportCredentials (NewTLS t)
               else sec = WithInsecure)
              \<and> opts =
                  [WithUnaryInterceptor UnaryClientInterceptor,
                   WithStreamInterceptor StreamClientInterceptor,
                   sec,
                   WithPerRPCCredentials
                     (if GetID (GetShared (GetToken cfg)) = []
                         \<and> GetFile (GetShared (GetToken cfg)) = []
                         \<and> GetSecret (GetShared (GetToken cfg)) = []
                      then ContextCredentials
                      else SharedContextCredentials
                             (TokenProvider (GetShared (GetToken cfg)) vault))]
                  @ (if 0 < GetWriteBufferSize cfg
                     then [WithWriteBufferSize (GetWriteBufferSize cfg)] else [])
                  @ (if 0 < GetReadBufferSize cfg
                     then [WithReadBufferSize (GetReadBufferSize cfg)] else [])
                  @ (if 0 < GetInitialWindowSize cfg
                     then [WithInitialWindowSize (GetInitialWindowSize cfg)] else [])
                  @ (if 0 < GetInitialConnWindowSize cfg
                     then [WithInitialConnWindowSize (GetInitialConnWindowSize cfg)] else [])
                  @ (if 0 < GetMaxCallRecvMsgSize cfg
                     then [WithDefaultCallOptions
                             [MaxCallRecvMsgSize (GetMaxCallRecvMsgSize cfg)]] else [])
                  @ (if 0 < GetMaxCallSendMsgSize cfg
                     then [WithDefaultCallOptions
                             [MaxCallSendMsgSize (GetMaxCallSendMsgSize cfg)]] else [])
                  @ (if 0 < GetMinConnectTimeout cfg
                     then [WithConnectParams (ConnectParams (GetMinConnectTimeout cfg))] else [])
                  @ (if GetBlock cfg then [WithBlock] else [])
                  @ [WithUserAgent
                       (if GetUserAgent cfg \<noteq> [] then GetUserAgent cfg else ''orlop/0.0.0'')])"
proof (intro conjI ballI)
  show "dialled_options (snd (ConnectContext env ctx cfg vault))
           = dialled_options (snd (ConnectContext env' ctx' cfg vault))"
    using assms by (simp add: dialled_options_ConnectContext)
next
  fix opts
  assume "opts \<in> set (dialled_options (snd (ConnectContext env ctx cfg vault)))"
  then obtain c u where "(c, u, opts) \<in> set (dial_calls (snd (ConnectContext env ctx cfg vault)))"
    by (auto simp: dialled_options_def)
  then obtain sec where
    sec: "sec = WithInsecure \<and> \<not> GetEnabled (GetTLS cfg) \<or>
      (\<exists>t. sec = WithTransportCredentials (NewTLS t) \<and> GetEnabled (GetTLS cfg) \<and>
           NewClientTLSConfig env (WithSpan ctx ''Connect'') (GetTLS cfg) vault = Inr t)"
    and opts: "opts = [WithUnaryInterceptor UnaryClientInterceptor,
                 WithStreamInterceptor StreamClientInterceptor, sec]
                 @ fst (ConnectContext_options (WithSpan ctx ''Connect'') cfg vault [])"
    using dial_calls_ConnectContextD [of c u opts env ctx cfg vault] by auto
  have ua: "(if GetUserAgent cfg = [] then Name @ ''/'' @ Version else GetUserAgent cfg)
              = (if GetUserAgent cfg \<noteq> [] then GetUserAgent cfg else ''orlop/0.0.0'')"
    by (simp add: Name_def Version_def)
  have sec': "if GetEnabled (GetTLS cfg)
               then \<exists>t. NewClientTLSConfig env (WithSpan ctx ''Connect'') (GetTLS cfg) vault = Inr t
                        \<and> sec = WithTransportCredentials (NewTLS t)
               else sec = WithInsecure"
    using sec by auto
  show "\<exists>sec.
              (if GetEnabled (GetTLS cfg)
               then \<exists>t. NewClientTLSConfig env (WithSpan ctx ''Connect'') (GetTLS cfg) vault = Inr t
                        \<and> sec = WithTransportCredentials (NewTLS t)
               else sec = WithInsecure)
              \<and> opts =
                  [WithUnaryInterceptor UnaryClientInterceptor,
                   WithStreamInterceptor StreamClientInterceptor,
                   sec,
                   WithPerRPCCredentials
                     (if GetID (GetShared (GetToken cfg)) = []
                         \<and> GetFile (GetShared (GetToken cfg)) = []
                         \<and> GetSecret (GetShared (GetToken cfg)) = []
                      then ContextCredentials
                      else SharedContextCredentials
                             (TokenProvider (GetShared (GetToken cfg)) vault))]
                  @ (if 0 < GetWriteBufferSize cfg
                     then [WithWriteBufferSize (GetWriteBufferSize cfg)] else [])
                  @ (if 0 < GetReadBufferSize cfg
                     then [WithReadBufferSize (GetReadBufferSize cfg)] else [])
                  @ (if 0 < GetInitialWindowSize cfg
                     then [WithInitialWindowSize (GetInitialWindowSize cfg)] else [])
                  @ (if 0 < GetInitialConnWindowSize cfg
                     then [WithInitialConnWindowSize (GetInitialConnWindowSize cfg)] else [])
                  @ (if 0 < GetMaxCallRecvMsgSize cfg
                     then [WithDefaultCallOptions
                             [MaxCallRecvMsgSize (GetMaxCallRecvMsgSize cfg)]] else [])
                  @ (if 0 < GetMaxCallSendMsgSize cfg
                     then [WithDefaultCallOptions
                             [MaxCallSendMsgSize (GetMaxCallSendMsgSize cfg)]] else [])
                  @ (if 0 < GetMinConnectTimeout cfg
                     then [WithConnectParams (ConnectParams (GetMinConnectTimeout cfg))] else [])
                  @ (if GetBlock cfg then [WithBlock] else [])
                  @ [WithUserAgent
                       (if GetUserAgent cfg \<noteq> [] then GetUserAgent cfg else ''orlop/0.0.0'')]"
    by (rule exI [of _ sec], rule conjI, rule sec')
      (simp add: opts ConnectContext_options_closed ua split del: if_split)
qed

text \<open>
  The amended C9 at the tuned configuration, run under two different caller contexts
  with the same resolver, and at the configuration without TLS, run under two different
  resolvers.
\<close>

theorem options_determined_by_config_and_material_witness:
  "GetEnabled (GetTLS fixture_cfg_tuned)
   \<and> NewClientTLSConfig fixture_env (WithSpan Background ''Connect'')
         (GetTLS fixture_cfg_tuned) fixture_vault
       = NewClientTLSConfig fixture_env (WithSpan (WithSpan Background ''caller'') ''Connect'')
           (GetTLS fixture_cfg_tuned) fixture_vault
   \<and> dialled_options
        (snd (ConnectContext fixture_env (WithSpan Background ''caller'') fixture_cfg_tuned
                fixture_vault))
       = [[WithUnaryInterceptor UnaryClientInterceptor,
           WithStreamInterceptor StreamClientInterceptor,
           WithTransportCredentials (NewTLS (TLSConfig ''chain-2020'')),
           WithPerRPCCredentials
             (SharedContextCredentials
                (TokenProvider \<lparr>GetID = ''api-key'', GetFile = [], GetSecret = []\<rparr>
                   fixture_vault)),
           WithWriteBufferSize 4096,
           WithInitialWindowSize 65535,
           WithDefaultCallOptions [MaxCallRecvMsgSize 1048576],
           WithConnectParams (ConnectParams 20),
           WithBlock,
           WithUserAgent ''probe/1.2'']]
   \<and> \<not> GetEnabled (GetTLS fixture_cfg)
   \<and> dialled_options
        (snd (ConnectContext fixture_env_no_material (WithSpan Background ''caller'') fixture_cfg
                fixture_vault))
       = [[WithUnaryInterceptor UnaryClientInterceptor,
           WithStreamInterceptor StreamClientInterceptor,
           WithInsecure,
           WithPerRPCCredentials ContextCredentials,
           WithUserAgent ''orlop/0.0.0'']]"
proof -
  have e: "GetEnabled (GetTLS fixture_cfg_tuned)" and n: "\<not> GetEnabled (GetTLS fixture_cfg)"
    by (simp_all add: fixture_cfg_tuned_def fixture_cfg_def)
  have m: "NewClientTLSConfig fixture_env (WithSpan Background ''Connect'')
         (GetTLS fixture_cfg_tuned) fixture_vault
       = NewClientTLSConfig fixture_env (WithSpan (WithSpan Background ''caller'') ''Connect'')
           (GetTLS fixture_cfg_tuned) fixture_vault"
    by (simp add: fixture_env_def)
  have h1: "GetEnabled (GetTLS fixture_cfg_tuned) \<longrightarrow>
      NewClientTLSConfig fixture_env (WithSpan Background ''Connect'')
         (GetTLS fixture_cfg_tuned) fixture_vault
       = NewClientTLSConfig fixture_env (WithSpan (WithSpan Background ''caller'') ''Connect'')
           (GetTLS fixture_cfg_tuned) fixture_vault"
    using m by simp
  have h2: "GetEnabled (GetTLS fixture_cfg) \<longrightarrow>
      NewClientTLSConfig fixture_env (WithSpan Background ''Connect'')
         (GetTLS fixture_cfg) fixture_vault
       = NewClientTLSConfig fixture_env_no_material
           (WithSpan (WithSpan Background ''caller'') ''Connect'')
           (GetTLS fixture_cfg) fixture_vault"
    using n by simp
  have "dialled_options
          (snd (ConnectContext fixture_env Background fixture_cfg_tuned fixture_vault))
        = dialled_options
          (snd (ConnectContext fixture_env (WithSpan Background ''caller'') fixture_cfg_tuned
                  fixture_vault))"
    using options_determined_by_config_and_material [OF h1] by simp
  moreover have "dialled_options
          (snd (ConnectContext fixture_env Background fixture_cfg fixture_vault))
        = dialled_options
          (snd (ConnectContext fixture_env_no_material (WithSpan Background ''caller'')
                  fixture_cfg fixture_vault))"
    using options_determined_by_config_and_material [OF h2] by simp
  ultimately show ?thesis
    using e n m by (simp add: dialled_options_def fixture_run_tuned fixture_run_plain)
qed

subsection \<open>C10: Connect\<close>

text \<open>
  C10. For every configuration and vault, \<open>Connect\<close> is \<open>ConnectContext\<close> called with
  the background context: the same connection or error, and the same trace.
\<close>

theorem Connect_is_ConnectContext_Background:
  "fst (Connect env cfg vault) = fst (ConnectContext env Background cfg vault)
   \<and> snd (Connect env cfg vault) = snd (ConnectContext env Background cfg vault)"
  by (simp add: Connect_def)

end
